theory Spec2Isabelle
  imports Main
begin

section \<open>Dogmatic Views: the caching and two-pass rendering pipeline of index.js\<close>

text \<open>
  The development embeds \<^verbatim>\<open>src/index.js\<close>: the path helpers (\<^verbatim>\<open>hasPath\<close>,
  \<^verbatim>\<open>makePath\<close>, \<^verbatim>\<open>addExtension\<close>), the file accessor \<^verbatim>\<open>Views.file\<close> with its
  \<^verbatim>\<open>files\<close> cache, and the two renderers \<^verbatim>\<open>Views.jade\<close> and \<^verbatim>\<open>Views.handlebars\<close> with
  their shared \<^verbatim>\<open>templates\<close> cache.

  Conventions of the embedding:
  \<^item> JavaScript strings and Buffers are \<open>string\<close>s (character lists).
  \<^item> The two module-level caches and a trace of the calls made to the outside world
    (file reads, gzip, jade's render, handlebars' compile) form the state, which every
    operation takes and returns.
  \<^item> The outside world is a record of functions; a failing read, compression, render or
    compile is the value \<open>None\<close>, and the rejected promise is the \<open>Inl\<close> of a sum.
  \<^item> A call is followed until all of the promises it started have settled. Where one call
    starts two independent chains (the compression of an already cached raw buffer and the
    read of the file), the source does not order their handlers: which of the two stores
    runs first is decided by the outside world, and both orders are modelled.
  \<^item> Path names are not names of properties inherited from \<^verbatim>\<open>Object.prototype\<close>
    (\<^verbatim>\<open>constructor\<close>, \<^verbatim>\<open>toString\<close>, \<^verbatim>\<open>__proto__\<close>, ...), for which \<^verbatim>\<open>files[name]\<close> is
    truthy although no entry was ever stored.
\<close>

subsection \<open>Node's path module (POSIX flavour), as used by the source\<close>

text \<open>\<^verbatim>\<open>path.sep\<close>\<close>

definition sep :: char where
  "sep = CHR ''/''"

text \<open>\<^verbatim>\<open>String.prototype.split\<close> on the separator: always at least one part.\<close>

fun split_sep :: "string \<Rightarrow> string list" where
  "split_sep [] = [[]]"
| "split_sep (c # cs) =
     (if c = sep then [] # split_sep cs
      else (case split_sep cs of
              [] \<Rightarrow> [[c]]
            | p # ps \<Rightarrow> (c # p) # ps))"

text \<open>\<^verbatim>\<open>Array.prototype.join\<close> with the separator.\<close>

fun join_sep :: "string list \<Rightarrow> string" where
  "join_sep [] = []"
| "join_sep [p] = p"
| "join_sep (p # q # ps) = p @ sep # join_sep (q # ps)"

text \<open>
  \<^verbatim>\<open>normalizeArray(parts, allowAboveRoot)\<close>: drops empty and \<^verbatim>\<open>.\<close> parts and resolves
  \<^verbatim>\<open>..\<close> against the part before it. The accumulator \<open>res\<close> is kept in reverse.
\<close>

fun normalizeArray :: "bool \<Rightarrow> string list \<Rightarrow> string list \<Rightarrow> string list" where
  "normalizeArray allowAboveRoot res [] = rev res"
| "normalizeArray allowAboveRoot res (p # ps) =
     (if p = [] \<or> p = ''.'' then normalizeArray allowAboveRoot res ps
      else if p = ''..'' then
        (case res of
           r # rs \<Rightarrow>
             if r \<noteq> ''..'' then normalizeArray allowAboveRoot rs ps
             else if allowAboveRoot then normalizeArray allowAboveRoot (p # res) ps
             else normalizeArray allowAboveRoot res ps
         | [] \<Rightarrow>
             if allowAboveRoot then normalizeArray allowAboveRoot (p # res) ps
             else normalizeArray allowAboveRoot res ps)
      else normalizeArray allowAboveRoot (p # res) ps)"

text \<open>\<^verbatim>\<open>path.normalize\<close>\<close>

definition path_normalize :: "string \<Rightarrow> string" where
  "path_normalize p =
     (let isAbsolute = (take 1 p = [sep]);
          trailingSlash = (p \<noteq> [] \<and> last p = sep);
          q = join_sep (normalizeArray (\<not> isAbsolute) [] (split_sep p));
          q1 = (if q = [] \<and> \<not> isAbsolute then ''.'' else q);
          q2 = (if q1 \<noteq> [] \<and> trailingSlash then q1 @ [sep] else q1)
      in (if isAbsolute then [sep] else []) @ q2)"

text \<open>\<^verbatim>\<open>path.join\<close>: the non-empty arguments joined by the separator, then normalised.\<close>

definition path_join :: "string list \<Rightarrow> string" where
  "path_join segments = path_normalize (join_sep (filter (\<lambda>s. s \<noteq> []) segments))"

text \<open>Helpers for \<^verbatim>\<open>path.extname\<close>: trailing separators are ignored, the extension is looked
  for in the last part only.\<close>

fun strip_trailing_sep :: "string \<Rightarrow> string" where
  "strip_trailing_sep p = rev (dropWhile (\<lambda>c. c = sep) (rev p))"

definition basename_part :: "string \<Rightarrow> string" where
  "basename_part p = rev (takeWhile (\<lambda>c. c \<noteq> sep) (rev (strip_trailing_sep p)))"

text \<open>
  \<^verbatim>\<open>path.extname\<close>: from the last dot of the last part to its end; empty when there is no
  dot, when the only dot is the first character of the part, and for the part \<^verbatim>\<open>..\<close>.
\<close>

definition path_extname :: "string \<Rightarrow> string" where
  "path_extname p =
     (let b = basename_part p;
          tail = rev (takeWhile (\<lambda>c. c \<noteq> CHR ''.'') (rev b))
      in if CHR ''.'' \<notin> set b then []
         else if b = ''..'' then []
         else if length tail + 1 = length b then []
         else CHR ''.'' # tail)"

subsection \<open>Helper functions of index.js\<close>

text \<open>
  \<^verbatim>\<open>var pathRE = new RegExp("^\.?\.?" + path.sep);\<close>

  Inside a JavaScript string literal \<^verbatim>\<open>\.\<close> is the character \<^verbatim>\<open>.\<close>, so the pattern handed
  to \<^verbatim>\<open>RegExp\<close> is \<^verbatim>\<open>^.?.?/\<close>: up to two characters, each anything but a line terminator,
  followed by the separator.
\<close>

definition line_terminator :: "char \<Rightarrow> bool" where
  "line_terminator c = (c = CHR 0x0A \<or> c = CHR 0x0D)"

text \<open>The remainders left after the pattern \<^verbatim>\<open>.?\<close> has consumed a prefix of the input.\<close>

fun opt_any :: "string \<Rightarrow> string list" where
  "opt_any [] = [[]]"
| "opt_any (c # cs) = (if line_terminator c then [c # cs] else [cs, c # cs])"

definition pathRE_test :: "string \<Rightarrow> bool" where
  "pathRE_test name =
     list_ex (\<lambda>r. take 1 r = [sep]) (concat (map opt_any (opt_any name)))"

text \<open>\<^verbatim>\<open>function hasPath(name) { return pathRE.test(name || "") }\<close>\<close>

definition hasPath :: "string \<Rightarrow> bool" where
  "hasPath name = pathRE_test name"

text \<open>
  The process-wide settings (the module's globals). \<open>cache\<close> is the truthiness of
  \<^verbatim>\<open>process.env.CACHE || (process.env.NODE_ENV === "production")\<close>, fixed when the module is
  loaded; the other five have a getter/setter each.
\<close>

record config =
  cache :: bool
  dirroot :: string
  dirviews :: string
  dirpublic :: string
  engFirst :: string
  engSecond :: string

text \<open>
  \<^verbatim>\<open>function makePath(name, dir) {
    return hasPath(name) ? name : path.join(__dirroot, dir, name || ""); }\<close>
\<close>

definition makePath :: "config \<Rightarrow> string \<Rightarrow> string \<Rightarrow> string" where
  "makePath c name dir = (if hasPath name then name else path_join [dirroot c, dir, name])"

text \<open>
  \<^verbatim>\<open>function addExtension(name, ext) {
    return path.extname(name) !== "" ? name : name + "." + ext; }\<close>
\<close>

definition addExtension :: "string \<Rightarrow> string \<Rightarrow> string" where
  "addExtension name ext = (if path_extname name \<noteq> [] then name else name @ ''.'' @ ext)"

subsection \<open>Values, options, the outside world and the state\<close>

text \<open>
  What a caller may pass as \<^verbatim>\<open>options\<close>. Of an object only the two properties the source
  reads are kept: \<open>None\<close> when the property is absent, otherwise its truthiness.
\<close>

datatype jsopts =
    Undefined
  | Null
  | Boolean bool
  | Number int
  | String string
  | Object "bool option" "bool option"

fun typeof :: "jsopts \<Rightarrow> string" where
  "typeof Undefined = ''undefined''"
| "typeof Null = ''object''"
| "typeof (Boolean b) = ''boolean''"
| "typeof (Number n) = ''number''"
| "typeof (String s) = ''string''"
| "typeof (Object c z) = ''object''"

record opts =
  opt_cache :: bool
  opt_zip :: bool

text \<open>\<^verbatim>\<open>assign(defaults, options)\<close>: the own properties of \<open>options\<close> override the defaults;
  \<^verbatim>\<open>null\<close> contributes nothing.\<close>

fun assign :: "opts \<Rightarrow> jsopts \<Rightarrow> opts" where
  "assign d (Object c z) =
     \<lparr>opt_cache = (case c of None \<Rightarrow> opt_cache d | Some b \<Rightarrow> b),
      opt_zip = (case z of None \<Rightarrow> opt_zip d | Some b \<Rightarrow> b)\<rparr>"
| "assign d other = d"

text \<open>
  \<^verbatim>\<open>options = ("object" === typeof options) ? options : {};
  options = assign({ cache : true, zip : true }, options);\<close>
\<close>

definition file_options :: "jsopts \<Rightarrow> opts" where
  "file_options options =
     assign \<lparr>opt_cache = True, opt_zip = True\<rparr>
       (if typeof options = ''object'' then options else Object None None)"

text \<open>
  \<^verbatim>\<open>options = ("object" === typeof options) ? options : {};
  options = assign({ cache : true }, options);\<close>

  Only \<^verbatim>\<open>options.cache\<close> is read afterwards.
\<close>

definition jade_options :: "jsopts \<Rightarrow> bool" where
  "jade_options options =
     opt_cache (assign \<lparr>opt_cache = True, opt_zip = False\<rparr>
       (if typeof options = ''object'' then options else Object None None))"

text \<open>What the \<^verbatim>\<open>templates\<close> cache holds and what flows into the second pass: a rendered
  string, a Buffer read from disk, or a compiled function (identified by a number).\<close>

datatype jsval = Str string | Buf string | Fn nat

text \<open>JavaScript truthiness: the empty string is falsy, Buffers and functions are truthy.\<close>

fun truthy :: "jsval \<Rightarrow> bool" where
  "truthy (Str s) = (s \<noteq> [])"
| "truthy (Buf b) = True"
| "truthy (Fn f) = True"

datatype error = ReadError string | ZipError | RenderError | CompileError

datatype event = ReadFile string | Gzip string | Render string | Compile jsval

text \<open>An entry of the \<^verbatim>\<open>files\<close> cache: an object with the optional properties \<^verbatim>\<open>std\<close> and
  \<^verbatim>\<open>zip\<close>.\<close>

record entry =
  std :: "string option"
  zip :: "string option"

text \<open>
  When \<^verbatim>\<open>Views.file\<close> has started both the compression of a cached raw buffer and the read
  of the file, either the handler of the compression (\<open>DeriveFirst\<close>) or the handler of the
  read chain (\<open>ReadFirst\<close>) stores into the cache first.
\<close>

datatype completion = DeriveFirst | ReadFirst

record world =
  readFile :: "string \<Rightarrow> string option"
  gzip :: "string \<Rightarrow> string option"
  render :: "string \<Rightarrow> (string \<rightharpoonup> string) \<Rightarrow> string option"
  compile :: "jsval \<Rightarrow> nat option"
  completion :: completion

record state =
  files :: "string \<rightharpoonup> entry"
  templates :: "string \<rightharpoonup> jsval"
  trace :: "event list"

definition init :: state where
  "init = \<lparr>files = Map.empty, templates = Map.empty, trace = []\<rparr>"

definition emit :: "event \<Rightarrow> state \<Rightarrow> state" where
  "emit e s = s\<lparr>trace := trace s @ [e]\<rparr>"

subsection \<open>Views.file\<close>

text \<open>
  The branch taken when an entry exists but lacks the requested representation:
  \<^verbatim>\<open>zip(files[name].std).tap(function(zipped) {
      files[name].zip = new Buffer(zipped, "binary"); });\<close>
  The promise is dropped: a failure is not reported to anyone. \<open>derive_tap\<close> is the handler
  given to \<^verbatim>\<open>tap\<close>, run when the compression of the cached bytes \<open>raw\<close> has finished; it
  writes into whatever entry \<^verbatim>\<open>files[name]\<close> is at that moment.
\<close>

definition derive_tap :: "world \<Rightarrow> string \<Rightarrow> string \<Rightarrow> state \<Rightarrow> state" where
  "derive_tap w name raw s =
     (case gzip w raw of
        None \<Rightarrow> s
      | Some zipped \<Rightarrow>
          (case files s name of
             None \<Rightarrow> s
           | Some e1 \<Rightarrow> s\<lparr>files := (files s)(name \<mapsto> e1\<lparr>zip := Some zipped\<rparr>)\<rparr>))"

text \<open>
  \<^verbatim>\<open>return readFile(name)
    .then(function(file) {
      var promises = [file];
      if (options.zip) promises.push(zip(file));
      return when.all(promises);
    })
    .spread(function(file, zipped) {
      if (options.cache) {
        files[name] = { std : file };
        if (options.zip) files[name].zip = new Buffer(zipped, "binary");
      }
      return when("std" === type ? file : zipped);
    });\<close>
\<close>

definition file_read :: "world \<Rightarrow> string \<Rightarrow> opts \<Rightarrow> state \<Rightarrow> (error + string) \<times> state" where
  "file_read w name options s =
     (let s1 = emit (ReadFile name) s in
      case readFile w name of
        None \<Rightarrow> (Inl (ReadError name), s1)
      | Some file \<Rightarrow>
          if opt_zip options then
            (let s2 = emit (Gzip file) s1 in
             case gzip w file of
               None \<Rightarrow> (Inl ZipError, s2)
             | Some zipped \<Rightarrow>
                 (Inr zipped,
                  if opt_cache options
                  then s2\<lparr>files := (files s2)(name \<mapsto> \<lparr>std = Some file, zip = Some zipped\<rparr>)\<rparr>
                  else s2))
          else
            (Inr file,
             if opt_cache options
             then s1\<lparr>files := (files s1)(name \<mapsto> \<lparr>std = Some file, zip = None\<rparr>)\<rparr>
             else s1))"

text \<open>
  \<^verbatim>\<open>Views.file = function(name, options) {
    ...
    var type = options.zip ? "zip" : "std";
    if (files[name] && cache) {
      if (files[name][type])
        return when(files[name][type]);
      else {
        // File must exist in unzipped form
        zip(files[name].std).tap(...);
      }
    }
    debug("Reading file at " + name);
    return readFile(name) ... };\<close>

  The \<^verbatim>\<open>else\<close> branch does not return: control falls through to the read.
  Compressing \<^verbatim>\<open>undefined\<close> (an entry without \<^verbatim>\<open>std\<close>) fails before zlib does any work.
  The calls are made in a fixed order (the compression of the cached bytes, the read, the
  compression of the bytes read); the two stores happen in the order given by the world.
  (The constant is named \<open>Views_file\<close>, \<open>file\<close> being reserved.)
\<close>

definition Views_file :: "config \<Rightarrow> world \<Rightarrow> string \<Rightarrow> jsopts \<Rightarrow> state \<Rightarrow> (error + string) \<times> state" where
  "Views_file c w name options s =
     (let options' = file_options options in
      case (if cache c then files s name else None) of
        Some e \<Rightarrow>
          (case (if opt_zip options' then zip e else std e) of
             Some bytes \<Rightarrow> (Inr bytes, s)
           | None \<Rightarrow>
               (case std e of
                  None \<Rightarrow> file_read w name options' s
                | Some raw \<Rightarrow>
                    (let s0 = emit (Gzip raw) s in
                     case completion w of
                       DeriveFirst \<Rightarrow> file_read w name options' (derive_tap w name raw s0)
                     | ReadFirst \<Rightarrow>
                         (case file_read w name options' s0 of
                            (r, s1) \<Rightarrow> (r, derive_tap w name raw s1)))))
      | None \<Rightarrow> file_read w name options' s)"

text \<open>\<^verbatim>\<open>Views.publicFile = function(name, options) {
    return Views.file(makePath(name, "public"), options); };\<close>\<close>

definition publicFile :: "config \<Rightarrow> world \<Rightarrow> string \<Rightarrow> jsopts \<Rightarrow> state \<Rightarrow> (error + string) \<times> state" where
  "publicFile c w name options s = Views_file c w (makePath c name ''public'') options s"

subsection \<open>Views.jade and Views.handlebars\<close>

text \<open>\<^verbatim>\<open>assign({}, defaults, vars || {}, { filename : loc })\<close>, where \<^verbatim>\<open>defaults\<close> is the empty
  object.\<close>

definition params :: "(string \<times> string) list \<Rightarrow> string \<Rightarrow> (string \<rightharpoonup> string)" where
  "params vars loc = (map_of vars)(''filename'' \<mapsto> loc)"

text \<open>\<^verbatim>\<open>templates[name] && cache\<close>\<close>

definition cached_template :: "config \<Rightarrow> state \<Rightarrow> string \<Rightarrow> jsval option" where
  "cached_template c s name =
     (case templates s name of
        None \<Rightarrow> None
      | Some v \<Rightarrow> if truthy v \<and> cache c then Some v else None)"

text \<open>
  \<^verbatim>\<open>Views.jade = function(name, vars, options) {
    ...
    name = addExtension(name, "jade");
    if (templates[name] && cache) return when(templates[name]);
    loc = makePath(name, __dirviews);
    return readFile(loc, "utf8")
      .then(function(file) {
        var params = assign({}, defaults, vars || {}, { filename : loc });
        return when.try(render, file, params); })
      .tap(function(html) { if (options.cache) templates[name] = html; }); };\<close>
\<close>

definition jade ::
  "config \<Rightarrow> world \<Rightarrow> string \<Rightarrow> (string \<times> string) list \<Rightarrow> jsopts \<Rightarrow> state \<Rightarrow> (error + jsval) \<times> state" where
  "jade c w name0 vars options s =
     (let ocache = jade_options options;
          name = addExtension name0 ''jade''
      in case cached_template c s name of
           Some v \<Rightarrow> (Inr v, s)
         | None \<Rightarrow>
             (let loc = makePath c name (dirviews c);
                  s1 = emit (ReadFile loc) s
              in case readFile w loc of
                   None \<Rightarrow> (Inl (ReadError loc), s1)
                 | Some file \<Rightarrow>
                     (let s2 = emit (Render file) s1 in
                      case render w file (params vars loc) of
                        None \<Rightarrow> (Inl RenderError, s2)
                      | Some html \<Rightarrow>
                          (Inr (Str html),
                           if ocache then s2\<lparr>templates := (templates s2)(name \<mapsto> Str html)\<rparr>
                           else s2))))"

text \<open>
  The first stage of \<^verbatim>\<open>Views.handlebars\<close>:
  \<^verbatim>\<open>(ext === ".html" ? readFile(makePath(name, __dirviews)) : Views.jade(name, vars, false))\<close>
  with \<open>name\<close> already carrying its extension.
\<close>

definition handlebars_html ::
  "config \<Rightarrow> world \<Rightarrow> string \<Rightarrow> (string \<times> string) list \<Rightarrow> state \<Rightarrow> (error + jsval) \<times> state" where
  "handlebars_html c w name vars s =
     (if path_extname name = ''.html'' then
        (let loc = makePath c name (dirviews c);
             s1 = emit (ReadFile loc) s
         in case readFile w loc of
              None \<Rightarrow> (Inl (ReadError loc), s1)
            | Some file \<Rightarrow> (Inr (Buf file), s1))
      else jade c w name vars (Boolean False) s)"

text \<open>
  \<^verbatim>\<open>Views.handlebars = function(name, vars) {
    name = addExtension(name, "jade");
    ext  = path.extname(name);
    return (...)
      .then(function(html) { return when.try(compile, html); })
      .tap(function(compiled) { templates[name] = compiled; }); };\<close>
\<close>

definition handlebars ::
  "config \<Rightarrow> world \<Rightarrow> string \<Rightarrow> (string \<times> string) list \<Rightarrow> state \<Rightarrow> (error + jsval) \<times> state" where
  "handlebars c w name0 vars s =
     (let name = addExtension name0 ''jade'' in
      case handlebars_html c w name vars s of
        (Inl err, s1) \<Rightarrow> (Inl err, s1)
      | (Inr html, s1) \<Rightarrow>
          (let s2 = emit (Compile html) s1 in
           case compile w html of
             None \<Rightarrow> (Inl CompileError, s2)
           | Some f \<Rightarrow> (Inr (Fn f), s2\<lparr>templates := (templates s2)(name \<mapsto> Fn f)\<rparr>)))"

subsection \<open>Counting calls, reachable states, and sample data\<close>

fun is_read :: "event \<Rightarrow> bool" where
  "is_read (ReadFile p) = True"
| "is_read e = False"

fun is_gzip :: "event \<Rightarrow> bool" where
  "is_gzip (Gzip b) = True"
| "is_gzip e = False"

definition reads :: "event list \<Rightarrow> nat" where
  "reads t = length (filter is_read t)"

definition gzips :: "event list \<Rightarrow> nat" where
  "gzips t = length (filter is_gzip t)"

text \<open>
  The states the module can be in after any sequence of completed calls of its four
  operations, with any arguments; the settings and the outside world may differ from call
  to call (files change on disk, the setters may be called in between).
\<close>

inductive reachable :: "state \<Rightarrow> bool" where
  start: "reachable init"
| file_call: "reachable s \<Longrightarrow> reachable (snd (Views_file c w name options s))"
| publicFile_call: "reachable s \<Longrightarrow> reachable (snd (publicFile c w name options s))"
| jade_call: "reachable s \<Longrightarrow> reachable (snd (jade c w name vars options s))"
| handlebars_call: "reachable s \<Longrightarrow> reachable (snd (handlebars c w name vars s))"

definition raw_present :: "state \<Rightarrow> bool" where
  "raw_present s = (\<forall>name e. files s name = Some e \<longrightarrow> std e \<noteq> None)"

text \<open>Settings with caching switched on (as with \<^verbatim>\<open>NODE_ENV=production\<close>) and off.\<close>

definition production :: config where
  "production =
     \<lparr>cache = True, dirroot = ''/srv'', dirviews = ''views'', dirpublic = ''public'',
      engFirst = ''jade'', engSecond = ''handlebars''\<rparr>"

definition development :: config where
  "development = production\<lparr>cache := False\<rparr>"

text \<open>
  A sample outside world: every file holds \<^verbatim>\<open>abc\<close>, compression prefixes \<^verbatim>\<open>gz:\<close>, the
  first pass wraps its source in a paragraph, and the second pass accepts strings only
  (as \<^verbatim>\<open>Handlebars.compile\<close> does), naming the compiled function by the length of its
  source.
\<close>

definition disk :: world where
  "disk =
     \<lparr>readFile = (\<lambda>p. Some ''abc''),
      gzip = (\<lambda>b. Some (''gz:'' @ b)),
      render = (\<lambda>src ps. Some (''<p>'' @ src @ ''</p>'')),
      compile = (\<lambda>v. case v of Str h \<Rightarrow> Some (length h) | Buf b \<Rightarrow> None | Fn f \<Rightarrow> None),
      completion = DeriveFirst\<rparr>"

text \<open>The same world after the files were removed, and one whose second pass rejects
  everything.\<close>

definition unreadable :: world where
  "unreadable = disk\<lparr>readFile := \<lambda>p. None\<rparr>"

definition uncompilable :: world where
  "uncompilable = disk\<lparr>compile := \<lambda>v. None\<rparr>"

text \<open>The cache after \<^verbatim>\<open>Views.file("/srv/public/app.js", { zip : false })\<close>.\<close>

definition raw_only :: state where
  "raw_only = init\<lparr>files := [''/srv/public/app.js'' \<mapsto> \<lparr>std = Some ''abc'', zip = None\<rparr>]\<rparr>"

definition both_cached :: state where
  "both_cached =
     \<lparr>files = [''/srv/public/app.js'' \<mapsto> \<lparr>std = Some ''abc'', zip = Some ''gz:abc''\<rparr>],
      templates = Map.empty,
      trace = [ReadFile ''/srv/public/app.js'', Gzip ''abc'']\<rparr>"

text \<open>The template cache holding a first-pass string, and holding a compiled function.\<close>

definition first_pass_cached :: state where
  "first_pass_cached = init\<lparr>templates := [''app.jade'' \<mapsto> Str ''<p>abc</p>'']\<rparr>"

definition second_pass_cached :: state where
  "second_pass_cached = init\<lparr>templates := [''app.jade'' \<mapsto> Fn 10]\<rparr>"

text \<open>The state after the first pass has rendered \<^verbatim>\<open>app\<close> from the empty caches, and the
  state after the second pass has compiled it from \<open>first_pass_cached\<close>.\<close>

definition rendered :: state where
  "rendered =
     \<lparr>files = Map.empty,
      templates = [''app.jade'' \<mapsto> Str ''<p>abc</p>''],
      trace = [ReadFile ''/srv/views/app.jade'', Render ''abc'']\<rparr>"

definition compiled :: state where
  "compiled =
     \<lparr>files = Map.empty,
      templates = [''app.jade'' \<mapsto> Fn 10],
      trace = [Compile (Str ''<p>abc</p>'')]\<rparr>"


text \<open>The sample world after the files were rewritten to hold \<^verbatim>\<open>xyz\<close>, completing the
  read chain before the compression of the cached bytes.\<close>

definition rewritten :: world where
  "rewritten = disk\<lparr>readFile := \<lambda>p. Some ''xyz'', completion := ReadFirst\<rparr>"

text \<open>The settings after \<^verbatim>\<open>Views.firstPass("handlebars")\<close>.\<close>

definition handlebars_first :: config where
  "handlebars_first = production\<lparr>engFirst := ''handlebars''\<rparr>"

section \<open>Basic facts\<close>

lemmas file_defs = Views_file_def file_options_def file_read_def derive_tap_def emit_def

lemma production_fields:
  "cache production" "dirroot production = ''/srv''" "dirviews production = ''views''"
  by (simp_all add: production_def)

lemma development_fields:
  "\<not> cache development" "dirroot development = ''/srv''" "dirviews development = ''views''"
  by (simp_all add: development_def production_def)

lemma extname_app: "path_extname ''app'' = []"
  by code_simp

lemma extname_app_jade: "path_extname ''app.jade'' = ''.jade''"
  by code_simp

lemma hasPath_app_jade: "\<not> hasPath ''app.jade''"
  by code_simp

lemma hasPath_js_app: "hasPath ''js/app.js''"
  by code_simp

lemma join_views_app_jade: "path_join [''/srv'', ''views'', ''app.jade''] = ''/srv/views/app.jade''"
  by code_simp

lemma join_public_js_app: "path_join [''/srv'', ''public'', ''js/app.js''] = ''/srv/public/js/app.js''"
  by code_simp

lemma makePath_app_jade:
  "dirroot c = ''/srv'' \<Longrightarrow> makePath c ''app.jade'' ''views'' = ''/srv/views/app.jade''"
  by (simp add: makePath_def hasPath_app_jade join_views_app_jade)

lemma addExtension_app: "addExtension ''app'' ''jade'' = ''app.jade''"
  by (simp add: addExtension_def extname_app)

lemma addExtension_app_jade: "addExtension ''app.jade'' ''jade'' = ''app.jade''"
  by (simp add: addExtension_def extname_app_jade)

text \<open>The pattern \<^verbatim>\<open>^.?.?/\<close> spelled out: a separator in one of the first three positions,
  with no line terminator before it.\<close>

lemma hasPath_iff:
  "hasPath name \<longleftrightarrow>
     (\<exists>rest. name = sep # rest)
   \<or> (\<exists>a rest. name = a # sep # rest \<and> \<not> line_terminator a)
   \<or> (\<exists>a b rest. name = a # b # sep # rest \<and> \<not> line_terminator a \<and> \<not> line_terminator b)"
proof (cases name)
  case Nil
  then show ?thesis by (simp add: hasPath_def pathRE_test_def)
next
  case (Cons a r1)
  note n1 = Cons
  show ?thesis
  proof (cases r1)
    case Nil
    with n1 show ?thesis by (auto simp: hasPath_def pathRE_test_def)
  next
    case (Cons b r2)
    note n2 = Cons
    show ?thesis
    proof (cases r2)
      case Nil
      with n1 n2 show ?thesis by (auto simp: hasPath_def pathRE_test_def)
    next
      case (Cons d r3)
      with n1 n2 show ?thesis by (auto simp: hasPath_def pathRE_test_def)
    qed
  qed
qed

text \<open>The first pass at the sample data, called the way the second pass calls it.\<close>

lemma jade_app_jade_false:
  "dirroot c = ''/srv'' \<Longrightarrow> dirviews c = ''views'' \<Longrightarrow>
   jade c (disk\<lparr>compile := k\<rparr>) ''app.jade'' [] (Boolean False) init
     = (Inr (Str ''<p>abc</p>''), rendered)"
  by (simp add: jade_def jade_options_def cached_template_def emit_def init_def Let_def
      addExtension_app_jade makePath_app_jade disk_def rendered_def)

lemma jade_app_undefined:
  "dirroot c = ''/srv'' \<Longrightarrow> dirviews c = ''views'' \<Longrightarrow> \<not> cache c \<Longrightarrow> templates s = [''app.jade'' \<mapsto> v] \<Longrightarrow>
   files s = Map.empty \<Longrightarrow> trace s = [] \<Longrightarrow>
   jade c disk ''app'' [] Undefined s = (Inr (Str ''<p>abc</p>''), rendered)"
  by (simp add: jade_def jade_options_def cached_template_def emit_def Let_def
      addExtension_app makePath_app_jade disk_def rendered_def)

lemma jade_app_init:
  "dirroot c = ''/srv'' \<Longrightarrow> dirviews c = ''views'' \<Longrightarrow>
   jade c disk ''app'' [] Undefined init = (Inr (Str ''<p>abc</p>''), rendered)"
  by (simp add: jade_def jade_options_def cached_template_def emit_def init_def Let_def
      addExtension_app makePath_app_jade disk_def rendered_def)

text \<open>The renderers never touch the file cache.\<close>

lemma files_jade: "files (snd (jade c w name vars options s)) = files s"
  by (auto simp: jade_def emit_def Let_def split: option.splits)

lemma files_handlebars_html: "files (snd (handlebars_html c w name vars s)) = files s"
  by (auto simp: handlebars_html_def files_jade emit_def Let_def split: option.splits)

lemma files_handlebars: "files (snd (handlebars c w name vars s)) = files s"
proof -
  obtain r s1 where h: "handlebars_html c w (addExtension name ''jade'') vars s = (r, s1)"
    by (cases "handlebars_html c w (addExtension name ''jade'') vars s")
  have "files s1 = files s"
    using files_handlebars_html [of c w "addExtension name ''jade''" vars s] h by simp
  then show ?thesis
    by (cases r) (auto simp: handlebars_def h emit_def Let_def split: option.splits)
qed

section \<open>The file accessor\<close>

text \<open>
  With the entry holding the raw bytes only and the compressed bytes requested, the call
  compresses the cached bytes and then, having not returned, reads the file as well.
\<close>

lemma file_raw_only_still_reads:
  assumes "cache c" and "files s name = Some e" and "std e = Some raw" and "zip e = None"
    and "opt_zip (file_options options)"
  shows "\<exists>t. trace (snd (Views_file c w name options s)) = trace s @ Gzip raw # ReadFile name # t"
  using assms
  by (cases "completion w")
     (auto simp: Views_file_def file_read_def derive_tap_def emit_def Let_def
      split: option.splits)

text \<open>
  When the file has changed since its raw bytes were cached and the read chain stores
  first, the late handler of the first compression puts the compression of the old bytes
  beside the new raw bytes, and the next call is served those.
\<close>

lemma file_stale_raw_read_first:
  "Views_file production rewritten ''/srv/public/app.js'' Undefined raw_only =
     (Inr ''gz:xyz'',
      \<lparr>files = [''/srv/public/app.js'' \<mapsto> \<lparr>std = Some ''xyz'', zip = Some ''gz:abc''\<rparr>],
       templates = Map.empty,
       trace = [Gzip ''abc'', ReadFile ''/srv/public/app.js'', Gzip ''xyz'']\<rparr>)
 \<and> Views_file production rewritten ''/srv/public/app.js'' Undefined
       \<lparr>files = [''/srv/public/app.js'' \<mapsto> \<lparr>std = Some ''xyz'', zip = Some ''gz:abc''\<rparr>],
        templates = Map.empty,
        trace = [Gzip ''abc'', ReadFile ''/srv/public/app.js'', Gzip ''xyz'']\<rparr> =
     (Inr ''gz:abc'',
      \<lparr>files = [''/srv/public/app.js'' \<mapsto> \<lparr>std = Some ''xyz'', zip = Some ''gz:abc''\<rparr>],
       templates = Map.empty,
       trace = [Gzip ''abc'', ReadFile ''/srv/public/app.js'', Gzip ''xyz'']\<rparr>)"
  by (simp add: file_defs production_def disk_def rewritten_def raw_only_def init_def)

text \<open>
  \<^bold>\<open>C1\<close>. The claim: with only the raw representation cached, a request for the compressed
  one calls the compression exactly once, reads nothing, returns the derived bytes and
  leaves both representations in the entry. The code at that input: the cached bytes are
  compressed, then the file is read and compressed again, and the entry is replaced by the
  freshly read pair. Two compressions and one read, where the claim has one and none,
  in whichever order the two stores happen.
\<close>

theorem file_derived_zip_reads_again:
  "Views_file production (disk\<lparr>completion := k\<rparr>) ''/srv/public/app.js'' Undefined raw_only =
     (Inr ''gz:abc'',
      \<lparr>files = [''/srv/public/app.js'' \<mapsto> \<lparr>std = Some ''abc'', zip = Some ''gz:abc''\<rparr>],
       templates = Map.empty,
       trace = [Gzip ''abc'', ReadFile ''/srv/public/app.js'', Gzip ''abc'']\<rparr>)
 \<and> gzips [Gzip ''abc'', ReadFile ''/srv/public/app.js'', Gzip ''abc''] = 2
 \<and> reads [Gzip ''abc'', ReadFile ''/srv/public/app.js'', Gzip ''abc''] = 1"
  by (cases k)
     (simp_all add: file_defs production_def disk_def raw_only_def init_def gzips_def reads_def)




text \<open>With the process-wide flag off, each operation ignores the caches it is given.\<close>

lemma file_uncached:
  "\<not> cache c \<Longrightarrow>
     fst (Views_file c w name options s) = fst (Views_file c w name options init)
   \<and> reads (trace (snd (Views_file c w name options s))) = reads (trace s) + 1"
  by (auto simp: Views_file_def file_read_def emit_def reads_def Let_def
      split: option.splits if_splits)

lemma jade_uncached:
  "\<not> cache c \<Longrightarrow>
     fst (jade c w name vars options s) = fst (jade c w name vars options init)
   \<and> reads (trace (snd (jade c w name vars options s))) = reads (trace s) + 1"
  by (auto simp: jade_def cached_template_def emit_def reads_def Let_def
      split: option.splits if_splits)

lemma handlebars_html_uncached:
  assumes "\<not> cache c"
  shows "fst (handlebars_html c w name vars s) = fst (handlebars_html c w name vars init)
   \<and> reads (trace (snd (handlebars_html c w name vars s))) = reads (trace s) + 1"
proof (cases "path_extname name = ''.html''")
  case True
  then show ?thesis
    by (auto simp: handlebars_html_def emit_def reads_def Let_def split: option.splits)
next
  case False
  then show ?thesis
    using jade_uncached [OF assms, of w name vars "Boolean False" s]
    by (simp add: handlebars_html_def)
qed

lemma handlebars_uncached:
  assumes "\<not> cache c"
  shows "fst (handlebars c w name vars s) = fst (handlebars c w name vars init)
       \<and> reads (trace (snd (handlebars c w name vars s))) = reads (trace s) + 1"
proof -
  let ?n = "addExtension name ''jade''"
  obtain r s1 where a: "handlebars_html c w ?n vars s = (r, s1)"
    by (cases "handlebars_html c w ?n vars s")
  obtain r0 s0 where b: "handlebars_html c w ?n vars init = (r0, s0)"
    by (cases "handlebars_html c w ?n vars init")
  from handlebars_html_uncached [OF assms, of w ?n vars s] a b
  have e: "r = r0" and n: "reads (trace s1) = reads (trace s) + 1"
    by simp_all
  show ?thesis
  proof (cases r0)
    case (Inl err)
    with a b e n show ?thesis
      by (simp add: handlebars_def)
  next
    case (Inr html)
    with a b e n show ?thesis
      by (cases "compile w html") (simp_all add: handlebars_def emit_def reads_def Let_def)
  qed
qed

text \<open>
  \<^bold>\<open>C6\<close>. With the process-wide flag off every lookup is a miss: from any state, the file
  accessor, the first-pass renderer and the second-pass renderer return what they return
  from the empty cache, that is, what the outside world gives at that moment, and each call
  performs exactly one read. Taking for the state the one left by an earlier call gives the
  statement for consecutive calls.
\<close>

theorem cache_disabled_unconditional_miss:
  assumes "\<not> cache c"
  shows "fst (Views_file c w path options s) = fst (Views_file c w path options init)
       \<and> reads (trace (snd (Views_file c w path options s))) = reads (trace s) + 1
       \<and> fst (jade c w name vars jopts s) = fst (jade c w name vars jopts init)
       \<and> reads (trace (snd (jade c w name vars jopts s))) = reads (trace s) + 1
       \<and> fst (handlebars c w name vars s) = fst (handlebars c w name vars init)
       \<and> reads (trace (snd (handlebars c w name vars s))) = reads (trace s) + 1"
  using file_uncached [OF assms, of w path options s]
    jade_uncached [OF assms, of w name vars jopts s]
    handlebars_uncached [OF assms, of w name vars s]
  by simp

theorem cache_disabled_unconditional_miss_witness:
  "\<not> cache development
 \<and> snd (Views_file development disk ''/srv/public/app.js'' Undefined init) = both_cached
 \<and> fst (Views_file development unreadable ''/srv/public/app.js'' Undefined both_cached)
      = Inl (ReadError ''/srv/public/app.js'')
 \<and> reads (trace (snd (Views_file development unreadable ''/srv/public/app.js'' Undefined
      both_cached))) = reads (trace both_cached) + 1"
proof -
  have c: "\<not> cache development"
    by (simp add: development_def production_def)
  have f: "snd (Views_file development disk ''/srv/public/app.js'' Undefined init) = both_cached"
    by (simp add: file_defs development_def production_def disk_def init_def both_cached_def)
  have g: "fst (Views_file development unreadable ''/srv/public/app.js'' Undefined init)
      = Inl (ReadError ''/srv/public/app.js'')"
    by (simp add: file_defs development_def production_def disk_def unreadable_def init_def)
  show ?thesis
    using cache_disabled_unconditional_miss
      [OF c, where w = unreadable and path = "''/srv/public/app.js''" and options = Undefined
        and s = both_cached] c f g
    by simp
qed

text \<open>
  What does hold on failure: a failed call of the file accessor leaves both caches as they
  were when there was no entry for the path or the flag is off, and a failed call of the
  first-pass renderer always does.
\<close>

lemma file_failure_isolated:
  "Views_file c w name options s = (Inl err, s') \<Longrightarrow> files s name = None \<or> \<not> cache c \<Longrightarrow>
     files s' = files s \<and> templates s' = templates s"
  by (auto simp: Views_file_def file_read_def emit_def Let_def split: option.splits if_splits)

lemma jade_failure_isolated:
  "jade c w name vars options s = (Inl err, s') \<Longrightarrow>
     templates s' = templates s \<and> files s' = files s"
  by (auto simp: jade_def emit_def Let_def split: option.splits if_splits)

text \<open>
  \<^bold>\<open>C7\<close>. The claim: a failing call creates or updates no cache entry, and the next call
  reads again. The code at an input where the raw bytes are cached, the compressed ones are
  requested and the file has been removed: the call fails with the read error, yet the
  entry has gained the compressed bytes, and the next call is served from it without a
  read, in whichever order the two chains settle. This is the fall-through of C1 seen from
  the failure side.
\<close>

theorem file_failed_call_updates_entry:
  "Views_file production (unreadable\<lparr>completion := k\<rparr>) ''/srv/public/app.js'' Undefined raw_only =
     (Inl (ReadError ''/srv/public/app.js''),
      \<lparr>files = [''/srv/public/app.js'' \<mapsto> \<lparr>std = Some ''abc'', zip = Some ''gz:abc''\<rparr>],
       templates = Map.empty,
       trace = [Gzip ''abc'', ReadFile ''/srv/public/app.js'']\<rparr>)
 \<and> files raw_only ''/srv/public/app.js'' = Some \<lparr>std = Some ''abc'', zip = None\<rparr>
 \<and> Views_file production (unreadable\<lparr>completion := k\<rparr>) ''/srv/public/app.js'' Undefined
       \<lparr>files = [''/srv/public/app.js'' \<mapsto> \<lparr>std = Some ''abc'', zip = Some ''gz:abc''\<rparr>],
        templates = Map.empty,
        trace = [Gzip ''abc'', ReadFile ''/srv/public/app.js'']\<rparr> =
     (Inr ''gz:abc'',
      \<lparr>files = [''/srv/public/app.js'' \<mapsto> \<lparr>std = Some ''abc'', zip = Some ''gz:abc''\<rparr>],
       templates = Map.empty,
       trace = [Gzip ''abc'', ReadFile ''/srv/public/app.js'']\<rparr>)"
  by (cases k)
     (simp_all add: file_defs production_def disk_def unreadable_def raw_only_def init_def)

text \<open>
  \<^bold>\<open>C9\<close>. An \<^verbatim>\<open>options\<close> argument whose \<^verbatim>\<open>typeof\<close> is not \<^verbatim>\<open>"object"\<close> is replaced by the
  defaults: the file accessor runs with \<^verbatim>\<open>{cache: true, zip: true}\<close> and the first-pass
  renderer with \<^verbatim>\<open>{cache: true}\<close>, so such a call is the same call as one that spells the
  defaults out, and a bare \<^verbatim>\<open>false\<close> switches nothing off.
\<close>

theorem non_object_options_are_defaults:
  assumes "typeof options \<noteq> ''object''"
  shows "file_options options = \<lparr>opt_cache = True, opt_zip = True\<rparr>
       \<and> jade_options options = True
       \<and> Views_file c w path options s = Views_file c w path (Object (Some True) (Some True)) s
       \<and> jade c w name vars options s = jade c w name vars (Object (Some True) None) s"
  using assms
  by (cases options) (simp_all add: Views_file_def file_options_def jade_def jade_options_def)

theorem non_object_options_are_defaults_witness:
  "typeof (Boolean False) \<noteq> ''object''
 \<and> file_options (Boolean False) = \<lparr>opt_cache = True, opt_zip = True\<rparr>
 \<and> jade_options (Boolean False)
 \<and> Views_file production disk ''/srv/public/app.js'' (Boolean False) init
      = Views_file production disk ''/srv/public/app.js'' (Object (Some True) (Some True)) init
 \<and> jade production disk ''app'' [] (Boolean False) init
      = jade production disk ''app'' [] (Object (Some True) None) init"
proof -
  have t: "typeof (Boolean False) \<noteq> ''object''"
    by simp
  show ?thesis
    using non_object_options_are_defaults
      [OF t, where c = production and w = disk and path = "''/srv/public/app.js''"
        and s = init and name = "''app''" and vars = "[]"] t
    by simp
qed

text \<open>The invariant of the file cache, operation by operation.\<close>

lemma raw_present_file_read:
  "raw_present s \<Longrightarrow> raw_present (snd (file_read w name options s))"
  by (auto simp: raw_present_def file_read_def emit_def Let_def split: option.splits if_splits)

lemma raw_present_derive_tap:
  "raw_present s \<Longrightarrow> raw_present (derive_tap w name raw s)"
  by (auto simp: raw_present_def derive_tap_def split: option.splits if_splits)

lemma raw_present_emit:
  "raw_present s \<Longrightarrow> raw_present (emit e s)"
  by (simp add: raw_present_def emit_def)

lemma raw_present_file:
  assumes "raw_present s"
  shows "raw_present (snd (Views_file c w name options s))"
proof -
  have read: "raw_present (snd (file_read w name (file_options options) t))"
    if "raw_present t" for t
    using that by (rule raw_present_file_read)
  have derive_then_read:
    "raw_present (snd (file_read w name (file_options options)
       (derive_tap w name raw (emit (Gzip raw) s))))" for raw
    by (intro read raw_present_derive_tap raw_present_emit assms)
  have read_then_derive: "raw_present (derive_tap w name raw s1)"
    if "file_read w name (file_options options) (emit (Gzip raw) s) = (r, s1)" for raw r s1
  proof -
    have "raw_present (snd (file_read w name (file_options options) (emit (Gzip raw) s)))"
      by (intro read raw_present_emit assms)
    with that show ?thesis
      by (simp add: raw_present_derive_tap)
  qed
  show ?thesis
    using assms read [OF assms] derive_then_read read_then_derive
    by (auto simp: Views_file_def Let_def split: option.splits completion.splits prod.splits)
qed

lemma reachable_raw_present: "reachable s \<Longrightarrow> raw_present s"
proof (induction rule: reachable.induct)
  case start
  show ?case by (simp add: raw_present_def init_def)
next
  case (file_call s c w name options)
  then show ?case by (simp add: raw_present_file)
next
  case (publicFile_call s c w name options)
  then show ?case by (simp add: publicFile_def raw_present_file)
next
  case (jade_call s c w name vars options)
  then show ?case by (simp add: raw_present_def files_jade)
next
  case (handlebars_call s c w name vars)
  then show ?case by (simp add: raw_present_def files_handlebars)
qed

text \<open>
  \<^bold>\<open>C10\<close>. In every state reachable from the empty caches by calls of the module's
  operations, each entry of the file cache has the raw representation; only the compressed
  one can be missing.
\<close>

theorem cache_entries_hold_raw:
  "reachable s \<Longrightarrow> files s name = Some e \<Longrightarrow> std e \<noteq> None"
  using reachable_raw_present [of s] by (simp add: raw_present_def)

theorem cache_entries_hold_raw_witness:
  "reachable (snd (Views_file production disk ''/srv/public/app.js'' (Object None (Some False)) init))
 \<and> files (snd (Views_file production disk ''/srv/public/app.js'' (Object None (Some False)) init))
      ''/srv/public/app.js'' = Some \<lparr>std = Some ''abc'', zip = None\<rparr>
 \<and> std \<lparr>std = Some ''abc'', zip = None\<rparr> \<noteq> None"
proof -
  have r: "reachable (snd (Views_file production disk ''/srv/public/app.js''
      (Object None (Some False)) init))"
    by (rule reachable.file_call) (rule reachable.start)
  have f: "files (snd (Views_file production disk ''/srv/public/app.js''
      (Object None (Some False)) init)) ''/srv/public/app.js'' = Some \<lparr>std = Some ''abc'', zip = None\<rparr>"
    by (simp add: file_defs production_def disk_def init_def)
  show ?thesis
    using cache_entries_hold_raw [OF r f] r f by simp
qed

section \<open>The resource locator\<close>

text \<open>
  \<^bold>\<open>C3\<close>. The claim: a name is returned unchanged exactly when it begins with \<^verbatim>\<open>/\<close>, \<^verbatim>\<open>./\<close>
  or \<^verbatim>\<open>../\<close>, and is joined under the root and the directory otherwise. The code at the
  name \<^verbatim>\<open>js/app.js\<close>, which has none of the three prefixes: the pattern's dots match the
  letters, the name counts as a path and comes back as it is, not as
  \<^verbatim>\<open>/srv/public/js/app.js\<close>.
\<close>

theorem makePath_two_chars_then_sep:
  "makePath production ''js/app.js'' ''public'' = ''js/app.js''
 \<and> take 1 ''js/app.js'' \<noteq> ''/'' \<and> take 2 ''js/app.js'' \<noteq> ''./'' \<and> take 3 ''js/app.js'' \<noteq> ''../''
 \<and> path_join [dirroot production, ''public'', ''js/app.js''] = ''/srv/public/js/app.js''"
  by (simp add: makePath_def hasPath_js_app join_public_js_app production_def)

section \<open>The two rendering passes\<close>

text \<open>
  \<^bold>\<open>C8\<close>, as the claim is written: an extensionless name gets the extension of the
  configured first-pass engine. After \<^verbatim>\<open>Views.firstPass("handlebars")\<close> the name \<^verbatim>\<open>app\<close>
  is still resolved to \<^verbatim>\<open>app.jade\<close>, by \<^verbatim>\<open>Views.jade\<close> and by \<^verbatim>\<open>Views.handlebars\<close>
  (which is then what \<^verbatim>\<open>Views[__engFirst]\<close> calls) alike: the file read is
  \<^verbatim>\<open>/srv/views/app.jade\<close>, the key written is \<^verbatim>\<open>app.jade\<close>, and nothing is read or stored
  under \<^verbatim>\<open>app.handlebars\<close>.
\<close>

theorem jade_extension_counterexample:
  "engFirst handlebars_first = ''handlebars''
 \<and> path_extname ''app'' = []
 \<and> jade handlebars_first disk ''app'' [] Undefined init = (Inr (Str ''<p>abc</p>''), rendered)
 \<and> trace rendered = [ReadFile ''/srv/views/app.jade'', Render ''abc'']
 \<and> templates rendered ''app.jade'' = Some (Str ''<p>abc</p>'')
 \<and> templates rendered ''app.handlebars'' = None
 \<and> handlebars handlebars_first disk ''app'' [] init =
     (Inr (Fn 10),
      \<lparr>files = Map.empty,
       templates = [''app.jade'' \<mapsto> Fn 10],
       trace = [ReadFile ''/srv/views/app.jade'', Render ''abc'', Compile (Str ''<p>abc</p>'')]\<rparr>)
 \<and> ''/srv/views/app.jade'' \<noteq> ''/srv/views/app.handlebars''"
proof -
  have r: "dirroot handlebars_first = ''/srv''" and v: "dirviews handlebars_first = ''views''"
    by (simp_all add: handlebars_first_def production_def)
  have j: "jade handlebars_first disk ''app'' [] Undefined init
      = (Inr (Str ''<p>abc</p>''), rendered)"
    by (rule jade_app_init [OF r v])
  have "disk\<lparr>compile := compile disk\<rparr> = disk"
    by simp
  then have i: "jade handlebars_first disk ''app.jade'' [] (Boolean False) init
      = (Inr (Str ''<p>abc</p>''), rendered)"
    using jade_app_jade_false [OF r v, of "compile disk"] by simp
  have h: "handlebars handlebars_first disk ''app'' [] init =
     (Inr (Fn 10),
      \<lparr>files = Map.empty,
       templates = [''app.jade'' \<mapsto> Fn 10],
       trace = [ReadFile ''/srv/views/app.jade'', Render ''abc'', Compile (Str ''<p>abc</p>'')]\<rparr>)"
    by (simp add: handlebars_def handlebars_html_def addExtension_app extname_app_jade i
        emit_def Let_def rendered_def)
       (simp add: disk_def eval_nat_numeral)
  show ?thesis
    using j h by (simp add: handlebars_first_def extname_app rendered_def)
qed

text \<open>
  \<^bold>\<open>C8\<close>, amended. The first-pass renderer works under the name with \<^verbatim>\<open>.jade\<close> appended
  when \<^verbatim>\<open>path.extname\<close> finds no extension, and under the name itself otherwise: a cached
  value is looked up under that key; on a miss the file read is the one at \<^verbatim>\<open>makePath\<close>
  of that key in the views directory, and a result stored is stored under that key. The
  extension is the literal \<^verbatim>\<open>jade\<close> of the source, which is the initial first-pass engine:
  the call does the same whatever first-pass engine has been configured.
\<close>

theorem jade_extension_inference:
  assumes "jade c w name vars options s = (r, s')"
    and "key = (if path_extname name = [] then name @ ''.jade'' else name)"
  shows "(case cached_template c s key of
            Some v \<Rightarrow> r = Inr v \<and> s' = s
          | None \<Rightarrow>
              (\<exists>t. trace s' = trace s @ ReadFile (makePath c key (dirviews c)) # t)
            \<and> (\<forall>html. r = Inr html \<and> jade_options options \<longrightarrow> templates s' key = Some html))
       \<and> jade (c\<lparr>engFirst := e\<rparr>) w name vars options s = (r, s')"
proof
  from assms show "case cached_template c s key of
            Some v \<Rightarrow> r = Inr v \<and> s' = s
          | None \<Rightarrow>
              (\<exists>t. trace s' = trace s @ ReadFile (makePath c key (dirviews c)) # t)
            \<and> (\<forall>html. r = Inr html \<and> jade_options options \<longrightarrow> templates s' key = Some html)"
    by (auto simp: jade_def addExtension_def emit_def Let_def split: option.splits if_splits)
  have "cached_template (c\<lparr>engFirst := e\<rparr>) s = cached_template c s"
    by (auto simp: cached_template_def fun_eq_iff split: option.splits)
  moreover have "makePath (c\<lparr>engFirst := e\<rparr>) = makePath c"
    by (simp add: makePath_def fun_eq_iff)
  ultimately
  have "jade (c\<lparr>engFirst := e\<rparr>) w name vars options s = jade c w name vars options s"
    by (simp add: jade_def Let_def cong: option.case_cong)
  with assms show "jade (c\<lparr>engFirst := e\<rparr>) w name vars options s = (r, s')"
    by simp
qed

theorem jade_extension_inference_witness:
  "jade production disk ''app'' [] Undefined init = (Inr (Str ''<p>abc</p>''), rendered)
 \<and> ''app.jade'' = (if path_extname ''app'' = [] then ''app'' @ ''.jade'' else ''app'')
 \<and> cached_template production init ''app.jade'' = None
 \<and> (\<exists>t. trace rendered = trace init @ ReadFile (makePath production ''app.jade'' (dirviews production)) # t)
 \<and> makePath production ''app.jade'' (dirviews production) = ''/srv/views/app.jade''
 \<and> templates rendered ''app.jade'' = Some (Str ''<p>abc</p>'')
 \<and> jade (production\<lparr>engFirst := ''handlebars''\<rparr>) disk ''app'' [] Undefined init
      = (Inr (Str ''<p>abc</p>''), rendered)"
proof -
  have j: "jade production disk ''app'' [] Undefined init = (Inr (Str ''<p>abc</p>''), rendered)"
    by (simp add: jade_app_init production_fields)
  have k: "''app.jade'' = (if path_extname ''app'' = [] then ''app'' @ ''.jade'' else ''app'')"
    by (simp add: extname_app)
  have m: "cached_template production init ''app.jade'' = None"
    by (simp add: cached_template_def init_def)
  have p: "makePath production ''app.jade'' (dirviews production) = ''/srv/views/app.jade''"
    by (simp add: makePath_app_jade production_fields)
  have u: "jade_options Undefined"
    by (simp add: jade_options_def)
  show ?thesis
    using jade_extension_inference [OF j k, of "''handlebars''"] j k m p u by simp
qed

text \<open>
  \<^bold>\<open>C2\<close>. The claim: the second pass gets its HTML from the first pass with caching off, so
  the first-pass string is not stored during the call. The code passes the boolean
  \<^verbatim>\<open>false\<close> as the options, which the first pass replaces by \<^verbatim>\<open>{cache: true}\<close>: the first
  stage of the second pass leaves the rendered string in the cache under its key, and when
  the compile step then fails, that string is what the call leaves behind.
\<close>

theorem handlebars_first_pass_is_cached:
  "handlebars_html production disk ''app.jade'' [] init = (Inr (Str ''<p>abc</p>''), rendered)
 \<and> templates rendered ''app.jade'' = Some (Str ''<p>abc</p>'')
 \<and> handlebars production uncompilable ''app'' [] init =
     (Inl CompileError,
      \<lparr>files = Map.empty,
       templates = [''app.jade'' \<mapsto> Str ''<p>abc</p>''],
       trace = [ReadFile ''/srv/views/app.jade'', Render ''abc'', Compile (Str ''<p>abc</p>'')]\<rparr>)"
proof -
  have "disk\<lparr>compile := compile disk\<rparr> = disk"
    by simp
  then have "jade production disk ''app.jade'' [] (Boolean False) init
      = (Inr (Str ''<p>abc</p>''), rendered)"
    using jade_app_jade_false [of production "compile disk"] by (simp add: production_fields)
  moreover have "jade production uncompilable ''app.jade'' [] (Boolean False) init
      = (Inr (Str ''<p>abc</p>''), rendered)"
    unfolding uncompilable_def by (simp add: jade_app_jade_false production_fields)
  ultimately show ?thesis
    by (simp add: handlebars_def handlebars_html_def addExtension_app extname_app_jade
        emit_def Let_def rendered_def uncompilable_def)
qed

text \<open>
  \<^bold>\<open>C4\<close>. Both passes write the one mapping \<^verbatim>\<open>templates\<close> under the name with its enforced
  extension. Whatever that mapping held under the key before (a first-pass string
  included), a successful second pass leaves its compiled function there; and whenever the
  first pass is not served from the cache and stores its result, the rendered string is
  what the key holds afterwards, a compiled function that was there being replaced.
\<close>

theorem templates_shared_namespace:
  "(handlebars c w name vars s = (Inr v, s1) \<longrightarrow>
      (\<exists>f. v = Fn f) \<and> templates s1 (addExtension name ''jade'') = Some v)
 \<and> (cached_template c s (addExtension name ''jade'') = None \<and> jade_options options
      \<and> jade c w name vars options s = (Inr v', s2) \<longrightarrow>
      (\<exists>h. v' = Str h) \<and> templates s2 (addExtension name ''jade'') = Some v')"
proof (intro conjI impI)
  assume h: "handlebars c w name vars s = (Inr v, s1)"
  obtain r sm where m: "handlebars_html c w (addExtension name ''jade'') vars s = (r, sm)"
    by (cases "handlebars_html c w (addExtension name ''jade'') vars s")
  from h m show "\<exists>f. v = Fn f"
    by (cases r) (auto simp: handlebars_def emit_def Let_def split: option.splits)
  from h m show "templates s1 (addExtension name ''jade'') = Some v"
    by (cases r) (auto simp: handlebars_def emit_def Let_def split: option.splits)
next
  assume j: "cached_template c s (addExtension name ''jade'') = None \<and> jade_options options
      \<and> jade c w name vars options s = (Inr v', s2)"
  then show "\<exists>h. v' = Str h"
    by (auto simp: jade_def emit_def Let_def split: option.splits)
  from j show "templates s2 (addExtension name ''jade'') = Some v'"
    by (auto simp: jade_def emit_def Let_def split: option.splits)
qed

theorem templates_shared_namespace_witness:
  "templates first_pass_cached ''app.jade'' = Some (Str ''<p>abc</p>'')
 \<and> handlebars production disk ''app'' [] first_pass_cached = (Inr (Fn 10), compiled)
 \<and> templates compiled ''app.jade'' = Some (Fn 10)
 \<and> templates second_pass_cached ''app.jade'' = Some (Fn 10)
 \<and> cached_template development second_pass_cached ''app.jade'' = None
 \<and> jade_options Undefined
 \<and> jade development disk ''app'' [] Undefined second_pass_cached = (Inr (Str ''<p>abc</p>''), rendered)
 \<and> templates rendered ''app.jade'' = Some (Str ''<p>abc</p>'')"
proof -
  have a: "templates first_pass_cached ''app.jade'' = Some (Str ''<p>abc</p>'')"
    by (simp add: first_pass_cached_def init_def)
  have h: "handlebars production disk ''app'' [] first_pass_cached = (Inr (Fn 10), compiled)"
    by (simp add: handlebars_def handlebars_html_def addExtension_app addExtension_app_jade
        extname_app_jade jade_def cached_template_def emit_def Let_def production_fields
        first_pass_cached_def init_def compiled_def disk_def eval_nat_numeral)
  have b: "templates second_pass_cached ''app.jade'' = Some (Fn 10)"
    by (simp add: second_pass_cached_def init_def)
  have m: "cached_template development second_pass_cached ''app.jade'' = None"
    by (simp add: cached_template_def second_pass_cached_def init_def development_fields)
  have u: "jade_options Undefined"
    by (simp add: jade_options_def)
  have j: "jade development disk ''app'' [] Undefined second_pass_cached
      = (Inr (Str ''<p>abc</p>''), rendered)"
    by (rule jade_app_undefined [where v = "Fn 10"])
       (simp_all add: development_fields second_pass_cached_def init_def)
  have first: "templates compiled (addExtension ''app'' ''jade'') = Some (Fn 10)"
    using templates_shared_namespace
      [of production disk "''app''" "[]" first_pass_cached "Fn 10" compiled] h
    by simp
  have second: "templates rendered (addExtension ''app'' ''jade'') = Some (Str ''<p>abc</p>'')"
    using templates_shared_namespace
      [of development disk "''app''" "[]" second_pass_cached _ _ Undefined "Str ''<p>abc</p>''" rendered]
      m u j
    by (simp add: addExtension_app)
  from first second a h b m u j show ?thesis
    by (simp add: addExtension_app)
qed

end
